theory Spec2Isabelle
  imports Main "HOL-Library.Word"
begin

section \<open>go\_to\_sheets: a shallow embedding of main.go\<close>

text \<open>
  The program runs, for every loader of the configuration, one SQL query, turns the
  result set into a grid and sends the grid to a spreadsheet with one batch update.
  Everything outside main.go (viper, database/sql, oauth2, encoding/json, the Sheets
  client, the file system, the console) is a parameter of the model: the record
  \<open>env\<close> holds what these libraries answer, the record \<open>world\<close> holds what the
  process changes. A \<open>log.Fatal\<close> (which ends in \<open>os.Exit(1)\<close>) and a \<open>panic\<close> are
  values of the type \<open>failure\<close>. The lines logrus prints are not modelled.
\<close>

subsection \<open>Failures\<close>

datatype failure =
    Fatal string      \<comment> \<open>log.Fatal, log.Fatalf: the message is logged, then os.Exit(1)\<close>
  | Panic string      \<comment> \<open>panic(..), also the runtime's nil pointer dereference\<close>

definition nil_deref :: string where
  "nil_deref = ''invalid memory address or nil pointer dereference''"

subsection \<open>Cell values and the cursor of database/sql\<close>

text \<open>
  What \<open>Scan\<close> stores into an \<open>interface{}\<close>: the values of driver.Value. A Go string
  and a Go byte slice are both byte sequences, here \<open>string\<close>; \<open>string(b)\<close> keeps the
  bytes.
\<close>

datatype val =
    VNil
  | VBytes string
  | VString string
  | VInt64 "64 word"
  | VFloat64 "64 word"   \<comment> \<open>the bit pattern\<close>
  | VBool bool
  | VTime int

datatype scan_error = ErrNoRows | ErrOther string

text \<open>
  The cursor, as database/sql presents it. \<open>fetches\<close> are the rows for which
  \<open>rows.Next()\<close> returns true, in their order. After them \<open>Next\<close> returns false: at
  the end of the result set (\<open>stream_error\<close> is None), or because the driver could not
  deliver the next row (\<open>stream_error\<close> is its error; the Rows keep it for
  \<open>rows.Err()\<close>). \<open>more_sets\<close> says that a further result set is pending at the end
  of this one. When \<open>Next\<close> returns false, database/sql closes the Rows by itself,
  except at the end of a result set with a further one pending.
\<close>

record cursor =
  columns :: "string list"
  fetches :: "val list list"
  stream_error :: "string option"
  more_sets :: bool

text \<open>
  \<open>rows.Scan(valuePtrs...)\<close> with \<open>valuePtrs[i] = &values[i]\<close>, after a \<open>Next\<close> that
  returned true: the number of destinations must be the number of values of the row;
  then every value is stored through its pointer (a store into an \<open>interface{}\<close> has no
  error), so the buffer \<open>values\<close> becomes the row. On the error the buffer is as
  before. \<open>Scan\<close> on Rows has no other error here, and never sql.ErrNoRows.
\<close>

fun rows_Scan :: "nat \<Rightarrow> val list \<Rightarrow> val list \<Rightarrow> scan_error option \<times> val list" where
  "rows_Scan n r vals =
     (if length r \<noteq> n then (Some (ErrOther ''sql: expected destination arguments in Scan''), vals)
      else (None, r))"

subsection \<open>The conversion of the rows to the grid (main, lines 128 to 163)\<close>

text \<open>Lines 148 to 156: a byte slice becomes a string, any other value is taken as it is.\<close>

fun cell :: "val \<Rightarrow> val" where
  "cell (VBytes b) = VString b"
| "cell v = v"

text \<open>Lines 147 to 158: the row \<open>x\<close> built from the buffer, one cell for each column.\<close>

definition mk_row :: "string list \<Rightarrow> val list \<Rightarrow> val list" where
  "mk_row cols vals = map (\<lambda>i. cell (vals ! i)) [0..<length cols]"

text \<open>
  The loop \<open>for rows.Next()\<close> of lines 138 to 163, by recursion on the rows the
  cursor still yields, with the \<open>switch\<close> on the error of \<open>Scan\<close> as the source has
  it. Both panics end the loop. The loop ends without a failure when \<open>Next\<close> returns
  false, whatever made it return false: \<open>rows.Err()\<close> is never read.
\<close>

fun scan_loop :: "string list \<Rightarrow> val list list \<Rightarrow> val list \<Rightarrow> val list list \<Rightarrow> failure + val list list" where
  "scan_loop cols [] vals sheetValues = Inr sheetValues"
| "scan_loop cols (r # rest) vals sheetValues =
     (case rows_Scan (length cols) r vals of
        (Some ErrNoRows, _) \<Rightarrow> Inl (Panic ''something went wrong..'')
      | (None, vals') \<Rightarrow> scan_loop cols rest vals' (sheetValues @ [mk_row cols vals'])
      | (Some (ErrOther _), _) \<Rightarrow> Inl (Panic ''row scan failure''))"

text \<open>Lines 128 to 136: the header row, and the buffer of \<open>count\<close> nil values.\<close>

definition convert :: "cursor \<Rightarrow> failure + val list list" where
  "convert c =
     (let headers = map VString (columns c);
          sheetValues = [headers];
          count = length (columns c);
          vals = replicate count VNil
      in scan_loop (columns c) (fetches c) vals sheetValues)"

subsection \<open>Configuration, credentials, files and the console\<close>

text \<open>
  \<open>viper.GetString\<close> on the loaded configuration: the value under the dotted key, the
  empty string when the key is absent.
\<close>

definition viper_GetString :: "(string \<rightharpoonup> string) \<Rightarrow> string \<Rightarrow> string" where
  "viper_GetString cfg key = (case cfg key of None \<Rightarrow> [] | Some v \<Rightarrow> v)"

text \<open>
  oauth2.Token, its four exported fields; \<open>Expiry\<close> is an instant, in seconds since
  1970-01-01T00:00:00Z.
\<close>

record token =
  AccessToken :: string
  TokenType :: string
  RefreshToken :: string
  Expiry :: int

text \<open>
  The oauth2.Config that \<open>google.ConfigFromJSON\<close> returns, by the two methods main.go
  calls: the URL of \<open>AuthCodeURL("state-token", oauth2.AccessTypeOffline)\<close>, and
  \<open>Exchange\<close>, with None when the token endpoint rejects the code.
\<close>

record oauth_config =
  AuthCodeURL :: string
  Exchange :: "string \<Rightarrow> token option"

text \<open>
  The file system: the contents of the files that exist, and the paths \<open>os.Create\<close>
  cannot open for writing. A write to a created file succeeds.
\<close>

record filesystem =
  contents :: "string \<rightharpoonup> string"
  denied :: "string \<Rightarrow> bool"

definition os_Open :: "filesystem \<Rightarrow> string \<Rightarrow> string option" where
  "os_Open fsys file = contents fsys file"

definition os_Create :: "filesystem \<Rightarrow> string \<Rightarrow> filesystem option" where
  "os_Create fsys file =
     (if denied fsys file then None else Some (fsys\<lparr>contents := (contents fsys)(file \<mapsto> [])\<rparr>))"

definition file_Write :: "filesystem \<Rightarrow> string \<Rightarrow> string \<Rightarrow> filesystem" where
  "file_Write fsys file bytes =
     fsys\<lparr>contents := (contents fsys)(file \<mapsto> (case contents fsys file of None \<Rightarrow> [] | Some old \<Rightarrow> old) @ bytes)\<rparr>"

text \<open>The request of the Sheets client, with the field names of the Go structs.\<close>

record value_range =
  Range :: string
  Values :: "val list list"

record batch_update =
  ValueInputOption :: string
  Data :: "value_range list"

text \<open>
  A database answers a query with a cursor, or with an error (None): then
  \<open>db.Query\<close> returns nil Rows. An open Rows value is named by its number.
\<close>

type_synonym database = "string \<Rightarrow> cursor option"

record rows =
  rid :: nat
  cur :: cursor

text \<open>What the libraries and the outside answer.\<close>

record env =
  viper :: "string \<rightharpoonup> string"
  postgres :: "database option"
    \<comment> \<open>None: sql.Open or db.Ping reports an error\<close>
  sheets_Do :: "token \<Rightarrow> string \<Rightarrow> batch_update \<Rightarrow> string option \<times> token"
    \<comment> \<open>BatchUpdate(spreadsheetId, rb).Do() through the client that holds the token: the
        error (None when the write is accepted) and the token the transport holds
        afterwards, a new one when it refreshed\<close>
  json_Encode :: "token \<Rightarrow> string option"
    \<comment> \<open>None: the token cannot be marshalled, Encode reports an error and writes nothing\<close>
  json_Decode :: "string \<Rightarrow> token option"
  ConfigFromJSON :: "string \<Rightarrow> oauth_config option"

text \<open>
  What the process changes: the files, the words still to be read from the console, what
  \<open>fmt\<close> printed (one entry for each call, without the line breaks), the queries run
  so far (the Rows of the n-th query has number n), the Rows that are open, and the
  writes handed to the spreadsheet service, accepted or not.
\<close>

record world =
  fs :: filesystem
  stdin :: "string list"
  stdout :: "string list"
  queried :: "string list"
  open_rows :: "nat list"
  sent :: "(string \<times> batch_update) list"

definition print :: "string \<Rightarrow> world \<Rightarrow> world" where
  "print line w = w\<lparr>stdout := stdout w @ [line]\<rparr>"

subsection \<open>tokenFromFile, saveToken, getTokenFromWeb, getClient\<close>

text \<open>
  \<open>tokenFromFile\<close> (lines 55 to 64). Go returns the token and the error; the caller
  reads the token only when the error is nil, so the model returns one or the other.
\<close>

datatype load_error = OpenError | DecodeError

definition tokenFromFile :: "env \<Rightarrow> filesystem \<Rightarrow> string \<Rightarrow> load_error + token" where
  "tokenFromFile e fsys file =
     (case os_Open fsys file of
        None \<Rightarrow> Inl OpenError
      | Some bytes \<Rightarrow>
          (case json_Decode e bytes of None \<Rightarrow> Inl DecodeError | Some t \<Rightarrow> Inr t))"

text \<open>
  \<open>saveToken\<close> (lines 66 to 74). \<open>os.Create\<close> has emptied the file when \<open>Encode\<close>
  runs; the error of \<open>Encode\<close> is not looked at, so after a failed \<open>Encode\<close> the
  function returns as after a successful one, with the file left empty.
\<close>

definition saveToken :: "env \<Rightarrow> string \<Rightarrow> token \<Rightarrow> world \<Rightarrow> failure option \<times> world" where
  "saveToken e file tok w =
     (let w1 = print (''Saving credential file to: '' @ file) w
      in case os_Create (fs w1) file of
           None \<Rightarrow> (Some (Fatal ''Unable to cache oauth token''), w1)
         | Some fsys \<Rightarrow>
             (case json_Encode e tok of
                None \<Rightarrow> (None, w1\<lparr>fs := fsys\<rparr>)
              | Some bytes \<Rightarrow> (None, w1\<lparr>fs := file_Write fsys file bytes\<rparr>)))"

text \<open>\<open>fmt.Scan(&code)\<close>: the next word of the console, an error at its end.\<close>

definition fmt_Scan :: "world \<Rightarrow> string option \<times> world" where
  "fmt_Scan w = (case stdin w of [] \<Rightarrow> (None, w) | x # rest \<Rightarrow> (Some x, w\<lparr>stdin := rest\<rparr>))"

text \<open>\<open>getTokenFromWeb\<close> (lines 36 to 51).\<close>

definition getTokenFromWeb :: "oauth_config \<Rightarrow> world \<Rightarrow> (failure + token) \<times> world" where
  "getTokenFromWeb config w =
     (let authURL = AuthCodeURL config;
          w1 = print (''Go to the following link in your browser then type the authorization code: '' @ authURL) w
      in case fmt_Scan w1 of
           (None, w2) \<Rightarrow> (Inl (Fatal ''Unable to read authorization code''), w2)
         | (Some code, w2) \<Rightarrow>
             (case Exchange config code of
                None \<Rightarrow> (Inl (Fatal ''Unable to retrieve token from web''), w2)
              | Some tok \<Rightarrow> (Inr tok, w2)))"

definition cacheFile :: string where
  "cacheFile = ''./cache.json''"

text \<open>
  \<open>getClient\<close> (lines 24 to 32). The client \<open>config.Client(ctx, tok)\<close> is the token it
  holds.
\<close>

definition getClient :: "env \<Rightarrow> oauth_config \<Rightarrow> world \<Rightarrow> (failure + token) \<times> world" where
  "getClient e config w =
     (case tokenFromFile e (fs w) cacheFile of
        Inr tok \<Rightarrow> (Inr tok, w)
      | Inl err \<Rightarrow>
          (case getTokenFromWeb config w of
             (Inl f, w1) \<Rightarrow> (Inl f, w1)
           | (Inr tok, w1) \<Rightarrow>
               (case saveToken e cacheFile tok w1 of
                  (Some f, w2) \<Rightarrow> (Inl f, w2)
                | (None, w2) \<Rightarrow> (Inr tok, w2))))"

subsection \<open>DbConnect and the Rows of database/sql\<close>

text \<open>\<open>DbConnect\<close> (lines 180 to 198).\<close>

definition DbConnect :: "env \<Rightarrow> failure + database" where
  "DbConnect e =
     (case postgres e of
        None \<Rightarrow> Inl (Fatal ''Unable to connect to Postgres DB'')
      | Some d \<Rightarrow> Inr d)"

text \<open>\<open>db.Query\<close>: the query is run; on success its Rows are open.\<close>

definition db_Query :: "database \<Rightarrow> string \<Rightarrow> world \<Rightarrow> rows option \<times> world" where
  "db_Query d q w =
     (let n = length (queried w);
          w1 = w\<lparr>queried := queried w @ [q]\<rparr>
      in case d q of
           None \<Rightarrow> (None, w1)
         | Some c \<Rightarrow> (Some \<lparr>rid = n, cur = c\<rparr>, w1\<lparr>open_rows := open_rows w1 @ [n]\<rparr>))"

definition rows_Close :: "rows \<Rightarrow> world \<Rightarrow> world" where
  "rows_Close h w = w\<lparr>open_rows := removeAll (rid h) (open_rows w)\<rparr>"

text \<open>
  The \<open>rows.Next()\<close> that returns false: it closes the Rows, except at the end of a
  result set with a further one pending.
\<close>

definition rows_Next_false :: "rows \<Rightarrow> world \<Rightarrow> world" where
  "rows_Next_false h w =
     (if stream_error (cur h) = None \<and> more_sets (cur h) then w else rows_Close h w)"

subsection \<open>main\<close>

text \<open>
  The state of \<open>main\<close> while it loops: the token the client holds, the calls
  \<open>rows.Close()\<close> deferred so far (the latest first, None for nil Rows), and the world.
\<close>

record run =
  client :: token
  deferred :: "rows option list"
  outside :: world

text \<open>
  The body of the loop over the loaders (lines 120 to 176). The \<open>defer\<close> of line 126
  is registered for the end of \<open>main\<close>. With nil Rows, \<open>rows.Columns()\<close> of line 128
  dereferences nil.
\<close>

definition loader_body :: "env \<Rightarrow> string \<Rightarrow> run \<Rightarrow> failure option \<times> run" where
  "loader_body e loader s =
     (let spreadsheetId = viper_GetString (viper e) (''loaders.'' @ loader @ ''.sheet'');
          rangeData = viper_GetString (viper e) ''loaders.ulta.range''
      in case DbConnect e of
           Inl f \<Rightarrow> (Some f, s)
         | Inr db \<Rightarrow>
             (let (rws, w1) = db_Query db (viper_GetString (viper e) (''loaders.'' @ loader @ ''.query'')) (outside s);
                  s1 = s\<lparr>deferred := rws # deferred s, outside := w1\<rparr>
              in case rws of
                   None \<Rightarrow> (Some (Panic nil_deref), s1)
                 | Some h \<Rightarrow>
                     (case convert (cur h) of
                        Inl f \<Rightarrow> (Some f, s1)
                      | Inr sheetValues \<Rightarrow>
                          (let w2 = rows_Next_false h w1;
                               rb = \<lparr>ValueInputOption = ''USER_ENTERED'',
                                     Data = [\<lparr>Range = rangeData, Values = sheetValues\<rparr>]\<rparr>;
                               (err, tok') = sheets_Do e (client s1) spreadsheetId rb;
                               w3 = w2\<lparr>sent := sent w2 @ [(spreadsheetId, rb)]\<rparr>
                           in case err of
                                Some msg \<Rightarrow> (Some (Fatal msg), s1\<lparr>client := tok', outside := w3\<rparr>)
                              | None \<Rightarrow> (None, s1\<lparr>client := tok', outside := print ''Done.'' w3\<rparr>)))))"

text \<open>
  The loop \<open>for loader := range loaders\<close>; the list is the order in which \<open>range\<close>
  yields the keys of \<open>viper.GetStringMap("loaders")\<close>, which Go does not fix. A failure
  ends the loop.
\<close>

fun run_loaders :: "env \<Rightarrow> string list \<Rightarrow> run \<Rightarrow> failure option \<times> run" where
  "run_loaders e [] s = (None, s)"
| "run_loaders e (loader # rest) s =
     (case loader_body e loader s of
        (Some f, s1) \<Rightarrow> (Some f, s1)
      | (None, s1) \<Rightarrow> run_loaders e rest s1)"

text \<open>
  The deferred calls, run when \<open>main\<close> returns or panics, the latest first.
  \<open>Close\<close> on nil Rows panics; the calls deferred before it still run.
\<close>

fun run_deferred :: "rows option list \<Rightarrow> failure option \<Rightarrow> world \<Rightarrow> failure option \<times> world" where
  "run_deferred [] r w = (r, w)"
| "run_deferred (Some h # ds) r w = run_deferred ds r (rows_Close h w)"
| "run_deferred (None # ds) r w = run_deferred ds (Some (Panic nil_deref)) w"

text \<open>
  \<open>main\<close> (lines 100 to 178), after \<open>init\<close> has loaded the configuration.
  \<open>sheets.New\<close> has no error for a client that is not nil. After \<open>log.Fatal\<close> the
  process exits and no deferred call runs.
\<close>

definition main :: "env \<Rightarrow> string list \<Rightarrow> world \<Rightarrow> failure option \<times> world" where
  "main e order w0 =
     (case os_Open (fs w0) ''client_secret.json'' of
        None \<Rightarrow> (Some (Fatal ''Unable to read client secret file''), w0)
      | Some b \<Rightarrow>
          (case ConfigFromJSON e b of
             None \<Rightarrow> (Some (Fatal ''Unable to parse client secret file to config''), w0)
           | Some config \<Rightarrow>
               (case getClient e config w0 of
                  (Inl f, w1) \<Rightarrow> (Some f, w1)
                | (Inr tk, w1) \<Rightarrow>
                    (case run_loaders e order \<lparr>client = tk, deferred = [], outside = w1\<rparr> of
                       (Some (Fatal m), s) \<Rightarrow> (Some (Fatal m), outside s)
                     | (r, s) \<Rightarrow> run_deferred (deferred s) r (outside s)))))"

subsection \<open>Notions used to state the properties\<close>

text \<open>A fetched row scans without an error: it is a row of as many values as columns.\<close>

definition scans :: "nat \<Rightarrow> val list \<Rightarrow> bool" where
  "scans n r = (length r = n)"

text \<open>
  What \<open>saveToken\<close> leaves in the file for a token: what \<open>Encode\<close> wrote, nothing
  when it failed.
\<close>

definition encoded :: "env \<Rightarrow> token \<Rightarrow> string" where
  "encoded e t = (case json_Encode e t of None \<Rightarrow> [] | Some bytes \<Rightarrow> bytes)"




text \<open>The world without the credential cache file.\<close>

definition drop_cache :: "world \<Rightarrow> world" where
  "drop_cache w = w\<lparr>fs := (fs w)\<lparr>contents := (contents (fs w))(cacheFile := None)\<rparr>\<rparr>"

subsection \<open>Example inputs\<close>

text \<open>
  A configuration with the two loaders \<open>ulta\<close> and \<open>sales\<close>, a database that answers
  their two queries, a spreadsheet service that rejects the writes to the listed
  spreadsheets and hands out a refreshed access token at every request, a toy codec that
  reads back one token and, as encoding/json does, has an error for an expiry after the
  year 9999 (253402300800 is 10000-01-01T00:00:00Z) and for empty contents, and a world
  with the client secret file.
\<close>

definition ex_token :: token where
  "ex_token = \<lparr>AccessToken = ''a1'', TokenType = ''Bearer'', RefreshToken = ''r1'', Expiry = 100\<rparr>"

definition ex_viper :: "string \<rightharpoonup> string" where
  "ex_viper = [''loaders.ulta.query'' \<mapsto> ''q1'', ''loaders.ulta.sheet'' \<mapsto> ''s1'',
               ''loaders.ulta.range'' \<mapsto> ''Ulta!A1'',
               ''loaders.sales.query'' \<mapsto> ''q2'', ''loaders.sales.sheet'' \<mapsto> ''s2'',
               ''loaders.sales.range'' \<mapsto> ''Sales!B2'']"

definition ex_cursor :: "val list list \<Rightarrow> bool \<Rightarrow> cursor" where
  "ex_cursor fts pending =
     \<lparr>columns = [''id''], fetches = fts, stream_error = None, more_sets = pending\<rparr>"

definition ex_table :: cursor where
  "ex_table = \<lparr>columns = [''id'', ''name''],
               fetches = [[VInt64 1, VBytes ''ann''], [VInt64 2, VNil]],
               stream_error = None, more_sets = False\<rparr>"

definition ex_config :: oauth_config where
  "ex_config = \<lparr>AuthCodeURL = ''url'',
                Exchange = (\<lambda>code. if code = ''4/x'' then Some ex_token else None)\<rparr>"

definition ex_env :: "cursor option \<Rightarrow> cursor option \<Rightarrow> string list \<Rightarrow> env" where
  "ex_env c1 c2 rejected =
     \<lparr>viper = ex_viper,
      postgres = Some (\<lambda>q. if q = ''q1'' then c1 else if q = ''q2'' then c2 else None),
      sheets_Do = (\<lambda>t sheet rb. (if sheet \<in> set rejected then Some ''rejected'' else None,
                                   t\<lparr>AccessToken := ''a2''\<rparr>)),
      json_Encode = (\<lambda>t. if Expiry t < 253402300800 then Some (AccessToken t) else None),
      json_Decode = (\<lambda>b. if b = ''a1'' then Some ex_token else None),
      ConfigFromJSON = (\<lambda>b. if b = ''secret'' then Some ex_config else None)\<rparr>"

definition ex_world :: "string option \<Rightarrow> string list \<Rightarrow> world" where
  "ex_world cache input =
     \<lparr>fs = \<lparr>contents = [''client_secret.json'' \<mapsto> ''secret''](cacheFile := cache),
            denied = (\<lambda>p. False)\<rparr>,
      stdin = input, stdout = [], queried = [], open_rows = [], sent = []\<rparr>"

definition ex_run :: run where
  "ex_run = \<lparr>client = ex_token, deferred = [], outside = ex_world (Some ''a1'') []\<rparr>"

lemmas ex_defs = ex_env_def ex_world_def ex_token_def ex_viper_def ex_cursor_def ex_table_def
  ex_config_def ex_run_def

lemmas run_defs = main_def os_Open_def getClient_def tokenFromFile_def cacheFile_def
  loader_body_def DbConnect_def db_Query_def viper_GetString_def
  convert_def mk_row_def rows_Next_false_def rows_Close_def print_def Let_def

section \<open>The row-to-grid conversion\<close>

lemma mk_row_full: "length r = length cols \<Longrightarrow> mk_row cols r = map cell r"
proof -
  assume len: "length r = length cols"
  have "map (\<lambda>i. cell (r ! i)) [0..<length r] = map cell (map ((!) r) [0..<length r])"
    by simp
  also have "\<dots> = map cell r" by (simp only: map_nth)
  finally show ?thesis unfolding mk_row_def using len by simp
qed

lemma scan_loop_good:
  "list_all (scans (length cols)) fts \<Longrightarrow>
   scan_loop cols fts vals sv = Inr (sv @ map (map cell) fts)"
proof (induction fts arbitrary: vals sv)
  case Nil
  show ?case by simp
next
  case (Cons r fts)
  from Cons.prems have len: "length r = length cols" by (simp add: scans_def)
  from Cons.prems have rest: "list_all (scans (length cols)) fts" by simp
  show ?case
    using Cons.IH [OF rest] len by (simp add: mk_row_full)
qed

lemma convert_good:
  "list_all (scans (length (columns c))) (fetches c) \<Longrightarrow>
   convert c = Inr (map VString (columns c) # map (map cell) (fetches c))"
  unfolding convert_def by (simp add: scan_loop_good)

lemma good_rows_length:
  "list_all (scans n) fts \<Longrightarrow>
   list_all (\<lambda>r. length r = n) (map (map cell) fts)"
proof (induction fts)
  case Nil
  show ?case by simp
next
  case (Cons r fts)
  then show ?case by (simp add: scans_def)
qed

text \<open>
  C3. For a cursor with C columns whose R rows all scan, the conversion returns a grid
  of R + 1 rows; row 0 is the header of the column names, and every row of the grid,
  the header included, has length C.
\<close>

theorem convert_shape:
  assumes "list_all (scans (length (columns c))) (fetches c)"
  shows "\<exists>g. convert c = Inr g \<and> length g = length (fetches c) + 1
             \<and> g ! 0 = map VString (columns c)
             \<and> list_all (\<lambda>r. length r = length (columns c)) g"
proof -
  let ?g = "map VString (columns c) # map (map cell) (fetches c)"
  have g: "convert c = Inr ?g" using assms by (rule convert_good)
  have body: "list_all (\<lambda>r. length r = length (columns c))
                (map (map cell) (fetches c))"
    using assms by (rule good_rows_length)
  have "length ?g = length (fetches c) + 1" by simp
  moreover have "?g ! 0 = map VString (columns c)" by simp
  moreover have "list_all (\<lambda>r. length r = length (columns c)) ?g" using body by simp
  ultimately show ?thesis using g by blast
qed

theorem convert_shape_witness:
  "list_all (scans (length (columns ex_table))) (fetches ex_table)
   \<and> convert ex_table
       = Inr [[VString ''id'', VString ''name''], [VInt64 1, VString ''ann''], [VInt64 2, VNil]]"
proof -
  have h: "list_all (scans (length (columns ex_table))) (fetches ex_table)"
    by (simp add: ex_table_def scans_def)
  show ?thesis using h convert_shape [OF h] by (simp add: ex_table_def convert_def mk_row_def)
qed

text \<open>
  C4, as the code has it. For a cursor whose rows all scan, the cell of the grid for
  column j of data row i is the string of the same bytes when the value read is a byte
  slice, and the value itself, unchanged, in every other case: nil stays nil, a number
  stays a number.
\<close>

theorem convert_cells:
  assumes "list_all (scans (length (columns c))) (fetches c)"
      and "i < length (fetches c)" and "fetches c ! i = r" and "j < length (columns c)"
  shows "\<exists>g. convert c = Inr g \<and>
             g ! (i + 1) ! j = (case r ! j of VBytes b \<Rightarrow> VString b | v \<Rightarrow> v)"
proof -
  have g: "convert c = Inr (map VString (columns c) # map (map cell) (fetches c))"
    using assms(1) by (rule convert_good)
  have "scans (length (columns c)) (fetches c ! i)"
    using assms(1,2) by (simp add: list_all_length)
  then have len: "length r = length (columns c)" using assms(3) by (simp add: scans_def)
  have "cell v = (case v of VBytes b \<Rightarrow> VString b | v \<Rightarrow> v)" for v
    by (cases v) simp_all
  then show ?thesis using g assms(2,3,4) len by simp
qed

theorem convert_cells_witness:
  "list_all (scans (length (columns ex_table))) (fetches ex_table)
   \<and> 0 < length (fetches ex_table) \<and> fetches ex_table ! 0 = [VInt64 1, VBytes ''ann'']
   \<and> 1 < length (columns ex_table)
   \<and> (\<exists>g. convert ex_table = Inr g \<and> g ! 1 ! 1 = VString ''ann'')"
proof -
  have h1: "list_all (scans (length (columns ex_table))) (fetches ex_table)"
    by (simp add: ex_table_def scans_def)
  have h2: "0 < length (fetches ex_table)" by (simp add: ex_table_def)
  have h3: "fetches ex_table ! 0 = [VInt64 1, VBytes ''ann'']" by (simp add: ex_table_def)
  have h4: "1 < length (columns ex_table)" by (simp add: ex_table_def)
  show ?thesis using h1 h2 h3 h4 convert_cells [OF h1 h2 h3 h4] by simp
qed

text \<open>
  C4 as it is stated fails: a number read from the cursor is in the grid as the number,
  not as a string, and nil is in the grid as nil, not as the empty string.
\<close>

theorem convert_keeps_numbers_and_nil:
  "convert \<lparr>columns = [''n''], fetches = [[VInt64 7], [VNil]], stream_error = None,
            more_sets = False\<rparr>
     = Inr [[VString ''n''], [VInt64 7], [VNil]]"
  by (simp add: convert_def mk_row_def)

text \<open>
  C5. For a cursor that yields no row, the conversion succeeds and the grid is the
  header row alone.
\<close>

theorem convert_empty:
  assumes "fetches c = []"
  shows "convert c = Inr [map VString (columns c)]"
  using assms by (simp add: convert_def)

theorem convert_empty_witness:
  "fetches (ex_cursor [] False) = []
   \<and> convert (ex_cursor [] False) = Inr [[VString ''id'']]"
proof -
  have h: "fetches (ex_cursor [] False) = []" by (simp add: ex_cursor_def)
  show ?thesis using h convert_empty [OF h] by (simp add: ex_cursor_def)
qed

section \<open>The credential store and the client\<close>

text \<open>
  C7 as it is stated fails: a credential that expires in the year 10000 cannot be
  encoded; \<open>saveToken\<close> returns without a failure and leaves the cache file empty, and
  loading it back fails.
\<close>

theorem save_then_load_year_10000:
  "fst (saveToken (ex_env None None []) cacheFile (ex_token\<lparr>Expiry := 253402300800\<rparr>)
         (ex_world None [])) = None
   \<and> contents (fs (snd (saveToken (ex_env None None []) cacheFile
         (ex_token\<lparr>Expiry := 253402300800\<rparr>) (ex_world None [])))) cacheFile = Some []
   \<and> tokenFromFile (ex_env None None [])
         (fs (snd (saveToken (ex_env None None []) cacheFile
            (ex_token\<lparr>Expiry := 253402300800\<rparr>) (ex_world None [])))) cacheFile
       = Inl DecodeError"
  by (simp add: saveToken_def tokenFromFile_def print_def os_Create_def os_Open_def
        file_Write_def ex_env_def ex_world_def ex_token_def)

text \<open>
  C7, as the code has it. For every credential that the JSON codec encodes without an
  error and reads back unchanged from that encoding, and every path that can be
  created: after saving the credential the file holds that encoding, whatever it held
  before, and loading it back from the same path returns a credential with the same
  four fields.
\<close>

theorem save_then_load:
  assumes "\<not> denied (fs w) file"
      and "json_Encode e t = Some bytes"
      and "json_Decode e bytes = Some t"
  shows "\<exists>w' t'. saveToken e file t w = (None, w') \<and> contents (fs w') file = Some bytes
           \<and> tokenFromFile e (fs w') file = Inr t'
           \<and> AccessToken t' = AccessToken t \<and> RefreshToken t' = RefreshToken t
           \<and> Expiry t' = Expiry t \<and> TokenType t' = TokenType t"
  using assms
  by (simp add: saveToken_def tokenFromFile_def print_def os_Create_def os_Open_def file_Write_def)

theorem save_then_load_witness:
  "\<not> denied (fs (ex_world (Some ''old'') [])) cacheFile
   \<and> json_Encode (ex_env None None []) ex_token = Some ''a1''
   \<and> json_Decode (ex_env None None []) ''a1'' = Some ex_token
   \<and> (\<exists>w'. saveToken (ex_env None None []) cacheFile ex_token (ex_world (Some ''old'') []) = (None, w')
          \<and> contents (fs w') cacheFile = Some ''a1''
          \<and> tokenFromFile (ex_env None None []) (fs w') cacheFile = Inr ex_token)"
proof -
  have h1: "\<not> denied (fs (ex_world (Some ''old'') [])) cacheFile" by (simp add: ex_world_def)
  have h2: "json_Encode (ex_env None None []) ex_token = Some ''a1''"
    by (simp add: ex_env_def ex_token_def)
  have h3: "json_Decode (ex_env None None []) ''a1'' = Some ex_token"
    by (simp add: ex_env_def)
  from save_then_load [OF h1 h2 h3] obtain w' t' where
    s: "saveToken (ex_env None None []) cacheFile ex_token (ex_world (Some ''old'') []) = (None, w')"
    and c: "contents (fs w') cacheFile = Some ''a1''"
    and l: "tokenFromFile (ex_env None None []) (fs w') cacheFile = Inr t'"
    and f: "AccessToken t' = AccessToken ex_token" "RefreshToken t' = RefreshToken ex_token"
           "Expiry t' = Expiry ex_token" "TokenType t' = TokenType ex_token"
    by blast
  from f have "t' = ex_token" by simp
  then show ?thesis using h1 h2 h3 s c l by blast
qed

lemma getTokenFromWeb_drop_cache:
  "getTokenFromWeb config (drop_cache w) =
     (fst (getTokenFromWeb config w), drop_cache (snd (getTokenFromWeb config w)))"
  by (simp add: getTokenFromWeb_def fmt_Scan_def print_def drop_cache_def Let_def
        split: list.splits option.splits)

lemma saveToken_drop_cache:
  "saveToken e cacheFile t (drop_cache w) =
     (fst (saveToken e cacheFile t w),
      if fst (saveToken e cacheFile t w) = None then snd (saveToken e cacheFile t w)
      else drop_cache (snd (saveToken e cacheFile t w)))"
  by (simp add: saveToken_def print_def drop_cache_def os_Create_def file_Write_def Let_def
        split: option.splits)

lemma drop_cache_console: "stdin (drop_cache w) = stdin w" "stdout (drop_cache w) = stdout w"
  by (simp_all add: drop_cache_def)

lemma getClient_unparsable:
  assumes "contents (fs w) cacheFile = Some junk" and "json_Decode e junk = None"
  shows "fst (getClient e config (drop_cache w)) = fst (getClient e config w)"
    and "stdin (snd (getClient e config (drop_cache w))) = stdin (snd (getClient e config w))"
    and "stdout (snd (getClient e config (drop_cache w))) = stdout (snd (getClient e config w))"
    and "fst (getClient e config w) = Inr t \<Longrightarrow>
           snd (getClient e config (drop_cache w)) = snd (getClient e config w)"
proof -
  have a: "tokenFromFile e (fs w) cacheFile = Inl DecodeError"
    using assms by (simp add: tokenFromFile_def os_Open_def)
  have b: "tokenFromFile e (fs (drop_cache w)) cacheFile = Inl OpenError"
    by (simp add: tokenFromFile_def os_Open_def drop_cache_def)
  obtain r1 w1 where g: "getTokenFromWeb config w = (r1, w1)" by (cases "getTokenFromWeb config w")
  have g': "getTokenFromWeb config (drop_cache w) = (r1, drop_cache w1)"
    using g by (simp add: getTokenFromWeb_drop_cache)
  show "fst (getClient e config (drop_cache w)) = fst (getClient e config w)"
    using a b g g' by (cases r1) (simp_all add: getClient_def saveToken_drop_cache split: prod.splits option.splits)
  show "stdin (snd (getClient e config (drop_cache w))) = stdin (snd (getClient e config w))"
    using a b g g' by (cases r1) (auto simp: getClient_def saveToken_drop_cache drop_cache_console split: prod.splits option.splits)
  show "stdout (snd (getClient e config (drop_cache w))) = stdout (snd (getClient e config w))"
    using a b g g' by (cases r1) (auto simp: getClient_def saveToken_drop_cache drop_cache_console split: prod.splits option.splits)
  show "fst (getClient e config w) = Inr t \<Longrightarrow>
           snd (getClient e config (drop_cache w)) = snd (getClient e config w)"
    using a b g g' by (cases r1) (auto simp: getClient_def saveToken_drop_cache split: prod.splits option.splits)
qed

lemma getClient_bootstrap:
  assumes "tokenFromFile e (fs w) cacheFile = Inl err"
      and "stdin w = code # rest" and "Exchange config code = Some t"
      and "\<not> denied (fs w) cacheFile"
  shows "getClient e config w =
           (Inr t, w\<lparr>fs := (fs w)\<lparr>contents := (contents (fs w))(cacheFile \<mapsto> encoded e t)\<rparr>,
                     stdin := rest,
                     stdout := stdout w @
                       [''Go to the following link in your browser then type the authorization code: '' @ AuthCodeURL config,
                        ''Saving credential file to: '' @ cacheFile]\<rparr>)"
  using assms
  by (simp add: getClient_def getTokenFromWeb_def fmt_Scan_def print_def saveToken_def
        os_Create_def file_Write_def encoded_def Let_def split: option.splits)

text \<open>
  C8. When the cache file loads, \<open>getClient\<close> returns the cached credential and
  leaves the world as it is: nothing is printed, nothing is read from the console. A
  cache file that does not parse is treated as a missing one: the result, what is read
  and what is printed are the same with the file and without it, and so is the whole
  world when a credential is returned; with an authorization code on the console that
  the token endpoint accepts, the prompt is printed, the code is read, and the exchanged
  credential is returned and written to the cache file.
\<close>

theorem getClient_cache_or_bootstrap:
  "(tokenFromFile e (fs w) cacheFile = Inr t \<longrightarrow> getClient e config w = (Inr t, w))
   \<and> (contents (fs w) cacheFile = Some junk \<and> json_Decode e junk = None \<longrightarrow>
         fst (getClient e config (drop_cache w)) = fst (getClient e config w)
       \<and> stdin (snd (getClient e config (drop_cache w))) = stdin (snd (getClient e config w))
       \<and> stdout (snd (getClient e config (drop_cache w))) = stdout (snd (getClient e config w))
       \<and> (\<forall>t'. fst (getClient e config w) = Inr t' \<longrightarrow>
              snd (getClient e config (drop_cache w)) = snd (getClient e config w))
       \<and> (\<forall>code rest t'. stdin w = code # rest \<and> Exchange config code = Some t'
              \<and> \<not> denied (fs w) cacheFile \<longrightarrow>
              getClient e config w =
                (Inr t', w\<lparr>fs := (fs w)\<lparr>contents := (contents (fs w))(cacheFile \<mapsto> encoded e t')\<rparr>,
                          stdin := rest,
                          stdout := stdout w @
                            [''Go to the following link in your browser then type the authorization code: '' @ AuthCodeURL config,
                             ''Saving credential file to: '' @ cacheFile]\<rparr>)))"
proof (intro conjI impI allI)
  assume "tokenFromFile e (fs w) cacheFile = Inr t"
  then show "getClient e config w = (Inr t, w)" by (simp add: getClient_def)
next
  assume a: "contents (fs w) cacheFile = Some junk \<and> json_Decode e junk = None"
  then show "fst (getClient e config (drop_cache w)) = fst (getClient e config w)"
    by (simp add: getClient_unparsable(1))
next
  assume a: "contents (fs w) cacheFile = Some junk \<and> json_Decode e junk = None"
  then show "stdin (snd (getClient e config (drop_cache w))) = stdin (snd (getClient e config w))"
    by (simp add: getClient_unparsable(2))
next
  assume a: "contents (fs w) cacheFile = Some junk \<and> json_Decode e junk = None"
  then show "stdout (snd (getClient e config (drop_cache w))) = stdout (snd (getClient e config w))"
    by (simp add: getClient_unparsable(3))
next
  fix t'
  assume a: "contents (fs w) cacheFile = Some junk \<and> json_Decode e junk = None"
     and b: "fst (getClient e config w) = Inr t'"
  from a have a1: "contents (fs w) cacheFile = Some junk" and a2: "json_Decode e junk = None"
    by simp_all
  show "snd (getClient e config (drop_cache w)) = snd (getClient e config w)"
    using a1 a2 b by (rule getClient_unparsable(4))
next
  fix code rest t'
  assume a: "contents (fs w) cacheFile = Some junk \<and> json_Decode e junk = None"
     and b: "stdin w = code # rest \<and> Exchange config code = Some t' \<and> \<not> denied (fs w) cacheFile"
  from a have l: "tokenFromFile e (fs w) cacheFile = Inl DecodeError"
    by (simp add: tokenFromFile_def os_Open_def)
  from b have b1: "stdin w = code # rest" and b2: "Exchange config code = Some t'"
    and b3: "\<not> denied (fs w) cacheFile" by simp_all
  show "getClient e config w =
          (Inr t', w\<lparr>fs := (fs w)\<lparr>contents := (contents (fs w))(cacheFile \<mapsto> encoded e t')\<rparr>,
                    stdin := rest,
                    stdout := stdout w @
                      [''Go to the following link in your browser then type the authorization code: '' @ AuthCodeURL config,
                       ''Saving credential file to: '' @ cacheFile]\<rparr>)"
    using l b1 b2 b3 by (rule getClient_bootstrap)
qed

theorem getClient_cache_or_bootstrap_witness:
  "tokenFromFile (ex_env None None []) (fs (ex_world (Some ''a1'') [])) cacheFile = Inr ex_token
   \<and> getClient (ex_env None None []) ex_config (ex_world (Some ''a1'') [])
       = (Inr ex_token, ex_world (Some ''a1'') [])
   \<and> contents (fs (ex_world (Some ''zz'') [''4/x''])) cacheFile = Some ''zz''
   \<and> json_Decode (ex_env None None []) ''zz'' = None
   \<and> stdin (ex_world (Some ''zz'') [''4/x'']) = [''4/x'']
   \<and> Exchange ex_config ''4/x'' = Some ex_token
   \<and> \<not> denied (fs (ex_world (Some ''zz'') [''4/x''])) cacheFile
   \<and> getClient (ex_env None None []) ex_config (drop_cache (ex_world (Some ''zz'') [''4/x'']))
       = getClient (ex_env None None []) ex_config (ex_world (Some ''zz'') [''4/x''])
   \<and> fst (getClient (ex_env None None []) ex_config (ex_world (Some ''zz'') [''4/x''])) = Inr ex_token"
proof -
  let ?e = "ex_env None None []"
  let ?w1 = "ex_world (Some ''a1'') []"
  let ?w2 = "ex_world (Some ''zz'') [''4/x'']"
  have h1: "tokenFromFile ?e (fs ?w1) cacheFile = Inr ex_token"
    by (simp add: tokenFromFile_def os_Open_def ex_env_def ex_world_def)
  have h2: "contents (fs ?w2) cacheFile = Some ''zz''" by (simp add: ex_world_def)
  have h3: "json_Decode ?e ''zz'' = None" by (simp add: ex_env_def)
  have h4: "stdin ?w2 = [''4/x'']" by (simp add: ex_world_def)
  have h5: "Exchange ex_config ''4/x'' = Some ex_token" by (simp add: ex_config_def)
  have h6: "\<not> denied (fs ?w2) cacheFile" by (simp add: ex_world_def)
  have c1: "getClient ?e ex_config ?w1 = (Inr ex_token, ?w1)"
    using getClient_cache_or_bootstrap [of ?e ?w1 ex_token ex_config] h1 by blast
  note inst = getClient_cache_or_bootstrap [of ?e ?w2 ex_token ex_config "''zz''"]
  have c2: "getClient ?e ex_config ?w2 =
          (Inr ex_token, ?w2\<lparr>fs := (fs ?w2)\<lparr>contents := (contents (fs ?w2))(cacheFile \<mapsto> encoded ?e ex_token)\<rparr>,
                    stdin := [],
                    stdout := stdout ?w2 @
                      [''Go to the following link in your browser then type the authorization code: '' @ AuthCodeURL ex_config,
                       ''Saving credential file to: '' @ cacheFile]\<rparr>)"
    using inst h2 h3 h4 h5 h6 by blast
  then have c3: "fst (getClient ?e ex_config ?w2) = Inr ex_token" by simp
  have c4: "fst (getClient ?e ex_config (drop_cache ?w2)) = fst (getClient ?e ex_config ?w2)"
    using inst h2 h3 by blast
  have c5: "snd (getClient ?e ex_config (drop_cache ?w2)) = snd (getClient ?e ex_config ?w2)"
    using inst h2 h3 c3 by blast
  have c6: "getClient ?e ex_config (drop_cache ?w2) = getClient ?e ex_config ?w2"
    using c4 c5 by (rule prod_eqI)
  show ?thesis using h1 c1 h2 h3 h4 h5 h6 c6 c3 by blast
qed

lemma loader_body_fs:
  "loader_body e l s = (r, s') \<Longrightarrow> fs (outside s') = fs (outside s)"
  by (auto simp: loader_body_def db_Query_def rows_Next_false_def rows_Close_def print_def Let_def
        split: sum.splits option.splits prod.splits if_splits)

lemma run_loaders_fs:
  "run_loaders e ls s = (r, s') \<Longrightarrow> fs (outside s') = fs (outside s)"
proof (induction ls arbitrary: s)
  case Nil
  then show ?case by simp
next
  case (Cons l ls)
  obtain r1 s1 where b: "loader_body e l s = (r1, s1)" by (cases "loader_body e l s")
  have f1: "fs (outside s1) = fs (outside s)" using b by (rule loader_body_fs)
  show ?case
  proof (cases r1)
    case None
    then have "run_loaders e ls s1 = (r, s')" using Cons.prems b by simp
    then have "fs (outside s') = fs (outside s1)" by (rule Cons.IH)
    then show ?thesis using f1 by simp
  next
    case (Some f)
    then have "s' = s1" using Cons.prems b by simp
    then show ?thesis using f1 by simp
  qed
qed

lemma run_deferred_fs:
  "run_deferred ds r w = (r', w') \<Longrightarrow> fs w' = fs w"
proof (induction ds r w rule: run_deferred.induct)
  case (1 r w)
  then show ?case by simp
next
  case (2 h ds r w)
  then show ?case by (simp add: rows_Close_def)
next
  case (3 ds r w)
  then show ?case by simp
qed

lemma getClient_fs:
  assumes "getClient e config w = (r, w1)"
  shows "(\<forall>t. tokenFromFile e (fs w) cacheFile = Inr t \<longrightarrow> w1 = w) \<and>
         (fs w1 = fs w \<or>
            (\<exists>err code rest t. tokenFromFile e (fs w) cacheFile = Inl err \<and> stdin w = code # rest
               \<and> Exchange config code = Some t \<and> r = Inr t
               \<and> fs w1 = (fs w)\<lparr>contents := (contents (fs w))(cacheFile \<mapsto> encoded e t)\<rparr>))"
  using assms
  by (auto simp: getClient_def getTokenFromWeb_def fmt_Scan_def print_def saveToken_def
        os_Create_def file_Write_def encoded_def Let_def
        split: sum.splits list.splits option.splits if_splits)

lemma main_fs:
  assumes "main e order w = (r, w')"
  shows "fs w' = fs w \<or>
         (\<exists>b config t w1. os_Open (fs w) ''client_secret.json'' = Some b \<and> ConfigFromJSON e b = Some config
            \<and> getClient e config w = (Inr t, w1) \<and> fs w' = fs w1)"
proof (cases "os_Open (fs w) ''client_secret.json''")
  case None
  then show ?thesis using assms by (simp add: main_def)
next
  case (Some b)
  show ?thesis
  proof (cases "ConfigFromJSON e b")
    case None
    then show ?thesis using assms Some by (simp add: main_def)
  next
    case cfg: (Some config)
    obtain rc w1 where gc: "getClient e config w = (rc, w1)" by (cases "getClient e config w")
    show ?thesis
    proof (cases rc)
      case (Inl f)
      then have "w' = w1" using assms Some cfg gc by (simp add: main_def)
      moreover have "fs w1 = fs w" using getClient_fs [OF gc] Inl by auto
      ultimately show ?thesis by simp
    next
      case (Inr t)
      obtain rl sl where rl: "run_loaders e order \<lparr>client = t, deferred = [], outside = w1\<rparr> = (rl, sl)"
        by (cases "run_loaders e order \<lparr>client = t, deferred = [], outside = w1\<rparr>")
      have f1: "fs (outside sl) = fs w1" using run_loaders_fs [OF rl] by simp
      have "fs w' = fs (outside sl)"
      proof (cases "\<exists>m. rl = Some (Fatal m)")
        case True
        then show ?thesis using assms Some cfg gc Inr rl by (auto simp: main_def)
      next
        case False
        then have "run_deferred (deferred sl) rl (outside sl) = (r, w')"
          using assms Some cfg gc Inr rl by (auto simp: main_def split: option.splits failure.splits)
        then show ?thesis by (rule run_deferred_fs)
      qed
      then show ?thesis using f1 Some cfg gc Inr by auto
    qed
  qed
qed

text \<open>
  C10. Whatever \<open>main\<close> does and however it ends, when the cached credential loads
  the files are at the end as they were at the start, whatever tokens the transport
  obtains by refreshing during the requests. The files differ at the end only when the
  load failed, an authorization code was read and exchanged for a credential: then the
  one difference is the cache file, which holds that credential.
\<close>

theorem cache_written_by_bootstrap_only:
  assumes "main e order w = (r, w')"
  shows "(\<forall>t. tokenFromFile e (fs w) cacheFile = Inr t \<longrightarrow> fs w' = fs w) \<and>
         (fs w' = fs w \<or>
            (\<exists>b config err code rest t.
               os_Open (fs w) ''client_secret.json'' = Some b \<and> ConfigFromJSON e b = Some config
               \<and> tokenFromFile e (fs w) cacheFile = Inl err \<and> stdin w = code # rest
               \<and> Exchange config code = Some t
               \<and> fs w' = (fs w)\<lparr>contents := (contents (fs w))(cacheFile \<mapsto> encoded e t)\<rparr>))"
proof -
  from main_fs [OF assms] show ?thesis
  proof
    assume "fs w' = fs w"
    then show ?thesis by simp
  next
    assume "\<exists>b config t w1. os_Open (fs w) ''client_secret.json'' = Some b \<and> ConfigFromJSON e b = Some config
            \<and> getClient e config w = (Inr t, w1) \<and> fs w' = fs w1"
    then obtain b config t w1 where
      b: "os_Open (fs w) ''client_secret.json'' = Some b" and c: "ConfigFromJSON e b = Some config"
      and g: "getClient e config w = (Inr t, w1)" and f: "fs w' = fs w1"
      by blast
    from getClient_fs [OF g] have
      g1: "\<forall>t. tokenFromFile e (fs w) cacheFile = Inr t \<longrightarrow> w1 = w" and
      g2: "fs w1 = fs w \<or>
            (\<exists>err code rest t'. tokenFromFile e (fs w) cacheFile = Inl err \<and> stdin w = code # rest
               \<and> Exchange config code = Some t' \<and> Inr t = (Inr t' :: failure + token)
               \<and> fs w1 = (fs w)\<lparr>contents := (contents (fs w))(cacheFile \<mapsto> encoded e t')\<rparr>)"
      by blast+
    have first: "\<forall>t. tokenFromFile e (fs w) cacheFile = Inr t \<longrightarrow> fs w' = fs w"
      using g1 f by auto
    have second: "fs w' = fs w \<or>
            (\<exists>b config err code rest t.
               os_Open (fs w) ''client_secret.json'' = Some b \<and> ConfigFromJSON e b = Some config
               \<and> tokenFromFile e (fs w) cacheFile = Inl err \<and> stdin w = code # rest
               \<and> Exchange config code = Some t
               \<and> fs w' = (fs w)\<lparr>contents := (contents (fs w))(cacheFile \<mapsto> encoded e t)\<rparr>)"
      using g2 b c f by (metis)
    show ?thesis using first second by blast
  qed
qed

theorem cache_written_by_bootstrap_only_witness:
  "main (ex_env (Some (ex_cursor [[VInt64 1]] False)) None []) [''ulta''] (ex_world (Some ''a1'') [])
     = (fst (main (ex_env (Some (ex_cursor [[VInt64 1]] False)) None []) [''ulta''] (ex_world (Some ''a1'') [])),
        snd (main (ex_env (Some (ex_cursor [[VInt64 1]] False)) None []) [''ulta''] (ex_world (Some ''a1'') [])))
   \<and> tokenFromFile (ex_env (Some (ex_cursor [[VInt64 1]] False)) None [])
        (fs (ex_world (Some ''a1'') [])) cacheFile = Inr ex_token
   \<and> fst (main (ex_env (Some (ex_cursor [[VInt64 1]] False)) None []) [''ulta''] (ex_world (Some ''a1'') [])) = None
   \<and> fs (snd (main (ex_env (Some (ex_cursor [[VInt64 1]] False)) None []) [''ulta''] (ex_world (Some ''a1'') [])))
       = fs (ex_world (Some ''a1'') [])
   \<and> contents (fs (snd (main (ex_env (Some (ex_cursor [[VInt64 1]] False)) None []) [''ulta'']
        (ex_world (Some ''zz'') [''4/x''])))) cacheFile = Some ''a1''"
proof -
  let ?e = "ex_env (Some (ex_cursor [[VInt64 1]] False)) None []"
  let ?w = "ex_world (Some ''a1'') []"
  have h: "main ?e [''ulta''] ?w = (fst (main ?e [''ulta''] ?w), snd (main ?e [''ulta''] ?w))"
    by simp
  have l: "tokenFromFile ?e (fs ?w) cacheFile = Inr ex_token"
    by (simp add: tokenFromFile_def os_Open_def ex_env_def ex_world_def)
  have same: "fs (snd (main ?e [''ulta''] ?w)) = fs ?w"
    using cache_written_by_bootstrap_only [OF h] l by blast
  have ok: "fst (main ?e [''ulta''] ?w) = None"
    by (simp add: ex_defs run_defs)
  have boot: "contents (fs (snd (main ?e [''ulta''] (ex_world (Some ''zz'') [''4/x''])))) cacheFile = Some ''a1''"
    by (simp add: ex_defs run_defs getTokenFromWeb_def fmt_Scan_def saveToken_def os_Create_def file_Write_def)
  show ?thesis using h l same ok boot by blast
qed

section \<open>The loader runner\<close>









text \<open>
  C1 on an example: with the loaders \<open>ulta\<close> and \<open>sales\<close> configured, the one write of
  the loader \<open>sales\<close> goes to the spreadsheet of \<open>sales\<close> with the range configured for
  \<open>ulta\<close>, not with the range configured for \<open>sales\<close>.
\<close>

theorem sales_written_to_range_of_ulta:
  "map (\<lambda>(sheet, rb). (sheet, map Range (Data rb)))
     (sent (snd (main (ex_env (Some (ex_cursor [[VInt64 1]] False))
                              (Some (ex_cursor [[VBytes ''x'']] False)) [])
                      [''sales''] (ex_world (Some ''a1'') []))))
     = [(''s2'', [''Ulta!A1''])]
   \<and> viper_GetString (viper (ex_env None None [])) ''loaders.sales.range'' = ''Sales!B2''"
  by (simp add: ex_defs run_defs)




text \<open>
  C6 on an example: the cursor of the loader \<open>ulta\<close> delivers one row and then reports
  that the next row cannot be decoded. The conversion does not fail: it returns the
  header and the one row. \<open>main\<close> hands this grid to the service as the whole result,
  prints \<open>Done.\<close>, goes on to the loader \<open>sales\<close> and ends without a failure.
\<close>

theorem decode_error_truncates_grid:
  "convert ((ex_cursor [[VInt64 1]] False)\<lparr>stream_error := Some ''bad row''\<rparr>)
     = Inr [[VString ''id''], [VInt64 1]]
   \<and> main (ex_env (Some ((ex_cursor [[VInt64 1]] False)\<lparr>stream_error := Some ''bad row''\<rparr>))
                  (Some (ex_cursor [[VBytes ''x'']] False)) [])
          [''ulta'', ''sales''] (ex_world (Some ''a1'') [])
     = (None,
        (ex_world (Some ''a1'') [])\<lparr>stdout := [''Done.'', ''Done.''],
           queried := [''q1'', ''q2''],
           sent := [(''s1'', \<lparr>ValueInputOption = ''USER_ENTERED'',
                       Data = [\<lparr>Range = ''Ulta!A1'', Values = [[VString ''id''], [VInt64 1]]\<rparr>]\<rparr>),
                    (''s2'', \<lparr>ValueInputOption = ''USER_ENTERED'',
                       Data = [\<lparr>Range = ''Ulta!A1'', Values = [[VString ''id''], [VString ''x'']]\<rparr>]\<rparr>)]\<rparr>)"
  by (simp add: ex_defs run_defs)

text \<open>
  C9 on an example: the query of the loader \<open>ulta\<close> leaves a further result set
  pending, so the Rows are not closed when \<open>Next\<close> returns false. The processing of
  \<open>ulta\<close> ends without a failure with its Rows, number 0, still open: the deferred
  \<open>Close\<close> waits for the end of \<open>main\<close>. When the write of \<open>sales\<close>, the next loader,
  is then rejected, the process exits with the Rows open; when it is accepted,
  \<open>main\<close> returns and only then the deferred calls close the Rows.
\<close>

theorem rows_open_after_loader:
  "fst (loader_body (ex_env (Some (ex_cursor [[VInt64 1]] True))
                            (Some (ex_cursor [[VBytes ''x'']] False)) [''s2'']) ''ulta'' ex_run)
     = None
   \<and> open_rows (outside (snd (loader_body (ex_env (Some (ex_cursor [[VInt64 1]] True))
                            (Some (ex_cursor [[VBytes ''x'']] False)) [''s2'']) ''ulta'' ex_run)))
     = [0]
   \<and> fst (main (ex_env (Some (ex_cursor [[VInt64 1]] True))
                      (Some (ex_cursor [[VBytes ''x'']] False)) [''s2''])
              [''ulta'', ''sales''] (ex_world (Some ''a1'') []))
     = Some (Fatal ''rejected'')
   \<and> open_rows (snd (main (ex_env (Some (ex_cursor [[VInt64 1]] True))
                      (Some (ex_cursor [[VBytes ''x'']] False)) [''s2''])
              [''ulta'', ''sales''] (ex_world (Some ''a1'') [])))
     = [0]
   \<and> main (ex_env (Some (ex_cursor [[VInt64 1]] True))
                      (Some (ex_cursor [[VBytes ''x'']] False)) [])
              [''ulta'', ''sales''] (ex_world (Some ''a1'') [])
     = (None, snd (main (ex_env (Some (ex_cursor [[VInt64 1]] True))
                      (Some (ex_cursor [[VBytes ''x'']] False)) [])
              [''ulta'', ''sales''] (ex_world (Some ''a1'') [])))
   \<and> open_rows (snd (main (ex_env (Some (ex_cursor [[VInt64 1]] True))
                      (Some (ex_cursor [[VBytes ''x'']] False)) [])
              [''ulta'', ''sales''] (ex_world (Some ''a1'') [])))
     = []"
  by (simp add: ex_defs run_defs)

end
